theory Spec2Isabelle
  imports Main "HOL-Library.Sublist" "HOL-Library.Multiset"
begin

section \<open>Python strings\<close>

text \<open>
  A Python \<open>str\<close> is modelled as a \<open>string\<close>; a \<open>char\<close> stands for one code point
  below 256. The functions of this section are the \<open>str\<close> methods that
  \<open>generate_endpoint\<close> calls.
\<close>

text \<open>\<open>sub in s\<close>: \<open>sub\<close> occurs somewhere in \<open>s\<close>.\<close>

fun contains :: "string \<Rightarrow> string \<Rightarrow> bool" where
  "contains sub [] = (sub = [])"
| "contains sub (c # cs) = (prefix sub (c # cs) \<or> contains sub cs)"

text \<open>
  \<open>s.split(sep)\<close> for a non-empty \<open>sep\<close> (both call sites pass a literal): the scan
  runs from the left, cuts at every occurrence found and resumes behind it. \<open>acc\<close> is
  the piece read so far.
\<close>

fun split_from :: "string \<Rightarrow> string \<Rightarrow> string \<Rightarrow> string list" where
  "split_from sep acc [] = [acc]"
| "split_from sep acc (c # cs) =
     (if prefix sep (c # cs) then acc # split_from sep [] (drop (length sep - 1) cs)
      else split_from sep (acc @ [c]) cs)"

definition str_split :: "string \<Rightarrow> string \<Rightarrow> string list" where
  "str_split sep s = split_from sep [] s"

text \<open>
  \<open>c.isspace()\<close> on the code points below 256: tab, line feed, vertical tab, form
  feed, carriage return, the four separators 0x1C to 0x1F, space, NEL and the
  no-break space.
\<close>

definition isspace :: "char \<Rightarrow> bool" where
  "isspace c = (c \<in> set
     [CHR 0x09, CHR 0x0A, CHR 0x0B, CHR 0x0C, CHR 0x0D, CHR 0x1C, CHR 0x1D, CHR 0x1E,
      CHR 0x1F, CHR 0x20, CHR 0x85, CHR 0xA0])"

text \<open>\<open>s.strip()\<close>: drop the whitespace at both ends.\<close>

definition strip :: "string \<Rightarrow> string" where
  "strip s = rev (dropWhile isspace (rev (dropWhile isspace s)))"

text \<open>
  The number of bytes of \<open>s.encode("utf-8")\<close>, which is how a name reaches the operating
  system: one byte for a code point below 128 and two for the others below 256.
\<close>

definition utf8_length :: "string \<Rightarrow> nat" where
  "utf8_length s = length s + length (filter (\<lambda>c. 128 \<le> (of_char c :: nat)) s)"

section \<open>The command line of the generator\<close>

text \<open>
  The block \<open># Build command\<close> and \<open># Add optional parameters\<close> of
  \<open>generate_endpoint\<close>. \<open>json_dumps\<close> is the standard library's \<open>json.dumps\<close>, a
  parameter. A dictionary is the list of its items in iteration order. Each \<open>if x:\<close>
  tests truthiness: \<open>None\<close>, the empty dictionary and the empty string are false.
\<close>

definition build_cmd ::
  "((string \<times> string) list \<Rightarrow> string) \<Rightarrow> string \<Rightarrow> string \<Rightarrow> string list \<Rightarrow> string list \<Rightarrow>
   (string \<times> string) list option \<Rightarrow> string option \<Rightarrow> string option \<Rightarrow> bool \<Rightarrow> string list" where
  "build_cmd json_dumps customer_name sap_version config_paths quote_fields
     custom_fields special_logic resume_session_id fork_session =
   (let cmd = [''node'', ''/app/dist/cli.js'', ''quote'',
               ''--customer'', customer_name,
               ''--sap-version'', sap_version,
               ''--config-files''] @ config_paths @
              [''--output'', ''/output'',
               ''--fields''] @ quote_fields;
        cmd = (case custom_fields of
                 None \<Rightarrow> cmd
               | Some d \<Rightarrow> if d \<noteq> [] then cmd @ [''--custom-fields'', json_dumps d] else cmd);
        cmd = (case special_logic of
                 None \<Rightarrow> cmd
               | Some s \<Rightarrow> if s \<noteq> [] then cmd @ [''--special-logic'', s] else cmd);
        cmd = (case resume_session_id of
                 None \<Rightarrow> cmd
               | Some r \<Rightarrow>
                   if r \<noteq> []
                   then (let cmd = cmd @ [''--resume'', r]
                         in if fork_session then cmd @ [''--fork''] else cmd)
                   else cmd)
    in cmd)"

section \<open>The session identifier\<close>

definition marker :: string where
  "marker = ''Session ID:''"

text \<open>
  The loop \<open># Parse output for session ID\<close>: the first line that contains the marker
  decides, and the loop breaks there.
\<close>

fun scan_lines :: "string list \<Rightarrow> string option" where
  "scan_lines [] = None"
| "scan_lines (line # rest) =
     (if contains marker line then Some (strip (last (str_split marker line)))
      else scan_lines rest)"

definition parse_session_id :: "string \<Rightarrow> string option" where
  "parse_session_id stdout = scan_lines (str_split [CHR 0x0A] stdout)"


section \<open>The file system\<close>

text \<open>
  The directory tree that the functions read and write: a regular file with its
  content, or a directory with its modification time and its entries in the order in
  which the operating system lists them. The time stamp \<open>'t\<close> is \<open>st_mtime\<close>; only
  its order is used. Symbolic links and permissions are outside the model. The limits
  of the operating system on names (\<open>NAME_MAX\<close> bytes for a component, less than
  \<open>PATH_MAX\<close> bytes for the text of a path) apply to the paths that the functions make
  from their arguments; the entries that a tree holds are taken to be within them.
\<close>

datatype 't node = File string | Dir 't "(string \<times> 't node) list"

fun is_dir :: "'t node \<Rightarrow> bool" where
  "is_dir (Dir t es) = True"
| "is_dir (File c) = False"

fun is_file :: "'t node \<Rightarrow> bool" where
  "is_file (File c) = True"
| "is_file (Dir t es) = False"

text \<open>
  The exceptions that the functions of the repository can raise in the model.
\<close>

datatype error =
    FileNotFoundError
  | NotADirectoryError
  | IsADirectoryError
  | FileExistsError
  | KeyError string
  | ValueError
  | OSError nat

abbreviation ENAMETOOLONG :: nat where
  "ENAMETOOLONG \<equiv> 36"

abbreviation NAME_MAX :: nat where
  "NAME_MAX \<equiv> 255"

abbreviation PATH_MAX :: nat where
  "PATH_MAX \<equiv> 4096"

text \<open>
  A path is the list of its components. \<open>parse_parts\<close> is what \<open>pathlib\<close> keeps of the
  text of a path behind its root: the pieces between slashes, without the empty ones
  and without \<open>.\<close>; it keeps \<open>..\<close>.
\<close>

type_synonym path = "string list"

definition parse_parts :: "string \<Rightarrow> path" where
  "parse_parts s = filter (\<lambda>p. p \<noteq> [] \<and> p \<noteq> ''.'') (str_split ''/'' s)"

text \<open>\<open>sep.join(parts)\<close>.\<close>

fun join :: "string \<Rightarrow> string list \<Rightarrow> string" where
  "join sep [] = []"
| "join sep [p] = p"
| "join sep (p # q # ps) = p @ sep @ join sep (q # ps)"

text \<open>\<open>lookup x p\<close> descends from \<open>x\<close> along the names of \<open>p\<close>.\<close>

fun lookup :: "'t node \<Rightarrow> path \<Rightarrow> 't node option" where
  "lookup x [] = Some x"
| "lookup (File c) (n # p) = None"
| "lookup (Dir t es) (n # p) = (case map_of es n of None \<Rightarrow> None | Some x \<Rightarrow> lookup x p)"

text \<open>
  How the operating system resolves the components \<open>cs\<close> of an absolute path, \<open>cur\<close>
  being the directory reached so far: each step needs \<open>cur\<close> to be a directory, and
  \<open>..\<close> steps to the parent (the root is its own parent); a component of more than
  \<open>NAME_MAX\<close> bytes is refused with \<open>ENAMETOOLONG\<close> when the walk reaches it. The
  result is the path without \<open>..\<close> of the place meant, which need not exist itself.
\<close>

fun realpath :: "'t node \<Rightarrow> path \<Rightarrow> path \<Rightarrow> error + path" where
  "realpath root cur [] = Inr cur"
| "realpath root cur (c # cs) =
     (case lookup root cur of
        None \<Rightarrow> Inl FileNotFoundError
      | Some (File x) \<Rightarrow> Inl NotADirectoryError
      | Some (Dir t es) \<Rightarrow>
          if c = ''..'' then realpath root (butlast cur) cs
          else if NAME_MAX < utf8_length c then Inl (OSError ENAMETOOLONG)
          else realpath root (cur @ [c]) cs)"

text \<open>
  The text of a path with root \<open>r\<close> and parts \<open>ps\<close>, as \<open>str\<close> gives it and as it is
  handed to the operating system.
\<close>

definition path_str :: "string \<times> path \<Rightarrow> string" where
  "path_str rp = fst rp @ join ''/'' (snd rp)"

text \<open>A zero character somewhere in a path: Python refuses it with \<open>ValueError\<close>.\<close>

definition has_nul :: "path \<Rightarrow> bool" where
  "has_nul p = list_ex (\<lambda>c. CHR 0x00 \<in> set c) p"

text \<open>
  \<open>os.stat(p)\<close> on an absolute path with root \<open>/\<close>: the node there, or the error. A
  text of \<open>PATH_MAX\<close> bytes or more is refused before the walk.
\<close>

definition stat :: "'t node \<Rightarrow> path \<Rightarrow> error + 't node" where
  "stat root p =
     (if has_nul p then Inl ValueError
      else if PATH_MAX \<le> utf8_length (path_str (''/'', p)) then Inl (OSError ENAMETOOLONG)
      else case realpath root [] p of
        Inl e \<Rightarrow> Inl e
      | Inr q \<Rightarrow> (case lookup root q of None \<Rightarrow> Inl FileNotFoundError | Some x \<Rightarrow> Inr x))"

text \<open>Something is at the path: \<open>stat\<close> succeeds.\<close>

definition path_exists :: "'t node \<Rightarrow> path \<Rightarrow> bool" where
  "path_exists root p = (case stat root p of Inl e \<Rightarrow> False | Inr x \<Rightarrow> True)"

text \<open>
  The call \<open>Path(p).exists()\<close>: \<open>stat\<close>, where a missing component, a component that
  is not a directory and \<open>ValueError\<close> give \<open>False\<close>, and any other error is raised.
\<close>

definition py_exists :: "'t node \<Rightarrow> path \<Rightarrow> error + bool" where
  "py_exists root p =
     (case stat root p of
        Inr x \<Rightarrow> Inr True
      | Inl FileNotFoundError \<Rightarrow> Inr False
      | Inl NotADirectoryError \<Rightarrow> Inr False
      | Inl ValueError \<Rightarrow> Inr False
      | Inl e \<Rightarrow> Inl e)"

subsection \<open>Recursive globbing\<close>

text \<open>
  \<open>start.rglob("*")\<close> is \<open>pathlib\<close>'s recursive selector followed by the wildcard
  selector: the first lists \<open>start\<close> and the directories below it, each before its
  subdirectories; the second lists, for each of them in turn, all its entries. The
  paths are kept relative to \<open>start\<close>. On something that is not a directory the result
  is empty. In a directory tree no path is produced twice, so the set of paths already
  yielded that \<open>pathlib\<close> keeps never rejects one.
\<close>

fun iterate_directories :: "path \<Rightarrow> 't node \<Rightarrow> (path \<times> 't node) list"
  and iterate_entries :: "path \<Rightarrow> (string \<times> 't node) list \<Rightarrow> (path \<times> 't node) list" where
  "iterate_directories p (File c) = []"
| "iterate_directories p (Dir t es) = (p, Dir t es) # iterate_entries p es"
| "iterate_entries p [] = []"
| "iterate_entries p ((n, x) # es) = iterate_directories (p @ [n]) x @ iterate_entries p es"

fun select_children :: "path \<times> 't node \<Rightarrow> (path \<times> 't node) list" where
  "select_children (p, Dir t es) = map (\<lambda>(n, x). (p @ [n], x)) es"
| "select_children (p, File c) = []"

definition rglob :: "'t node \<Rightarrow> (path \<times> 't node) list" where
  "rglob start = concat (map select_children (iterate_directories [] start))"

text \<open>\<open>Path(p).rglob("*")\<close> for a path: nothing when no directory is there.\<close>

definition rglob_path :: "'t node \<Rightarrow> path \<Rightarrow> (path \<times> 't node) list" where
  "rglob_path root p = (case stat root p of Inl e \<Rightarrow> [] | Inr x \<Rightarrow> rglob x)"

section \<open>Listing the customers\<close>

record 't customer =
  name :: string
  modified :: 't
  file_count :: nat

text \<open>The loop over \<open>output_dir.iterdir()\<close>, appending one record per directory.\<close>

fun collect_customers :: "(string \<times> 't node) list \<Rightarrow> 't customer list" where
  "collect_customers [] = []"
| "collect_customers ((n, File c) # es) = collect_customers es"
| "collect_customers ((n, Dir t sub) # es) =
     \<lparr>name = n, modified = t, file_count = length (rglob (Dir t sub))\<rparr> # collect_customers es"

text \<open>
  \<open>sorted(xs, key=k, reverse=True)\<close>: the list is reversed, sorted by a stable sort and
  reversed again.
\<close>

definition sorted_reverse :: "('a \<Rightarrow> 'k::linorder) \<Rightarrow> 'a list \<Rightarrow> 'a list" where
  "sorted_reverse k xs = rev (sort_key k (rev xs))"

text \<open>
  \<open>list_customers\<close>. Iterating over \<open>/output\<close> when it is a regular file raises
  \<open>NotADirectoryError\<close>.
\<close>

definition list_customers :: "('t::linorder) node \<Rightarrow> error + 't customer list" where
  "list_customers root =
     (let output_dir = [''output''] in
      case stat root output_dir of
        Inl e \<Rightarrow> Inr (sorted_reverse modified [])
      | Inr (File c) \<Rightarrow> Inl NotADirectoryError
      | Inr (Dir t es) \<Rightarrow> Inr (sorted_reverse modified (collect_customers es)))"

section \<open>Downloading a customer's files\<close>

text \<open>
  The archive is modelled by its members, each a name and a content, in the order in
  which they are written; the bytes of the container and the compression are the
  \<open>zipfile\<close> library's. The name of a member is the text of its relative path.
\<close>

type_synonym archive = "(string \<times> string) list"

text \<open>The loop over \<open>output_dir.rglob("*")\<close> that writes the regular files.\<close>

fun zip_write_all :: "(path \<times> 't node) list \<Rightarrow> archive" where
  "zip_write_all [] = []"
| "zip_write_all ((p, File c) # fs) = (join ''/'' p, c) # zip_write_all fs"
| "zip_write_all ((p, Dir t es) # fs) = zip_write_all fs"

text \<open>
  \<open>download_generated_code\<close>, with the file system it leaves behind as the second
  component.
\<close>

definition download_generated_code :: "'t node \<Rightarrow> string \<Rightarrow> (error + archive) \<times> 't node" where
  "download_generated_code root customer_name =
     (let output_dir = ''output'' # parse_parts customer_name in
      case py_exists root output_dir of
        Inl e \<Rightarrow> (Inl e, root)
      | Inr False \<Rightarrow> (Inl FileNotFoundError, root)
      | Inr True \<Rightarrow> (Inr (zip_write_all (rglob_path root output_dir)), root))"


subsection \<open>Well-formed trees\<close>



text \<open>The number of regular files below a node, for comparison with \<open>file_count\<close>.\<close>

fun regular_files :: "'t node \<Rightarrow> nat"
  and regular_files_entries :: "(string \<times> 't node) list \<Rightarrow> nat" where
  "regular_files (File c) = 1"
| "regular_files (Dir t es) = regular_files_entries es"
| "regular_files_entries [] = 0"
| "regular_files_entries ((n, x) # es) = regular_files x + regular_files_entries es"

subsection \<open>A small store\<close>

text \<open>
  The store of the specification's scenario: \<open>acme\<close> with five files and an older time
  stamp, \<open>globex\<close> with two files and a newer one, and a stray regular file beside them.
\<close>

definition acme_dir :: "int node" where
  "acme_dir = Dir 1
     [(''src'', Dir 1 [(''quote.ts'', File ''Q''), (''types.ts'', File ''T'')]),
      (''README.md'', File ''R''),
      (''test'', Dir 1 [(''quote.test.ts'', File ''QT'')]),
      (''package.json'', File ''P'')]"

definition globex_dir :: "int node" where
  "globex_dir = Dir 2 [(''a.ts'', File ''A''), (''b.ts'', File ''B'')]"

definition demo_root :: "int node" where
  "demo_root = Dir 0
     [(''output'', Dir 2 [(''acme'', acme_dir), (''notes.txt'', File ''N''), (''globex'', globex_dir)]),
      (''tmp'', Dir 0 [])]"


section \<open>Writing to the file system\<close>

text \<open>
  The world of one container: its directory tree, the time that the operating system
  stamps on a directory when an entry is added or removed, the order in which the
  operating system lists the entries of a directory that has changed, the process
  environment, the directory that \<open>tempfile.gettempdir()\<close> returns and the names that
  \<open>tempfile\<close>'s random generator will propose next. The listing order is the file
  system's own and no function of the order of creation: \<open>listing w es\<close> is how the
  entries \<open>es\<close> come to be listed. Within one world the time stands still, so the
  directories that one call makes bear one stamp; the generator leaves a world with a
  clock of its own.
\<close>

record 't world =
  tree :: "'t node"
  clock :: 't
  listing :: "(string \<times> 't node) list \<Rightarrow> (string \<times> 't node) list"
  environ :: "string \<rightharpoonup> string"
  tempdir :: path
  temp_names :: "string list"

text \<open>
  \<open>modify f x p\<close> replaces the node at \<open>p\<close> below \<open>x\<close> by its image under \<open>f\<close>; a path
  that leads nowhere changes nothing.
\<close>

fun modify :: "('t node \<Rightarrow> 't node) \<Rightarrow> 't node \<Rightarrow> path \<Rightarrow> 't node"
  and modify_entries ::
    "('t node \<Rightarrow> 't node) \<Rightarrow> (string \<times> 't node) list \<Rightarrow> string \<Rightarrow> path \<Rightarrow> (string \<times> 't node) list" where
  "modify f x [] = f x"
| "modify f (File c) (n # p) = File c"
| "modify f (Dir m es) (n # p) = Dir m (modify_entries f es n p)"
| "modify_entries f [] n p = []"
| "modify_entries f ((k, y) # es) n p =
     (if k = n then (k, modify f y p) # es else (k, y) # modify_entries f es n p)"

text \<open>
  The three changes to a directory: a new entry (the directory is stamped and listed
  anew, in the order \<open>re\<close> of the file system), new content for an entry that is there,
  and the removal of an entry (the directory is stamped and listed anew).
\<close>

fun add_entry ::
  "((string \<times> 't node) list \<Rightarrow> (string \<times> 't node) list) \<Rightarrow> 't \<Rightarrow> string \<Rightarrow> 't node \<Rightarrow> 't node \<Rightarrow>
   't node" where
  "add_entry re t n x (Dir m es) = Dir t (re (es @ [(n, x)]))"
| "add_entry re t n x (File c) = File c"

fun replace_entry :: "string \<Rightarrow> 't node \<Rightarrow> 't node \<Rightarrow> 't node" where
  "replace_entry n x (Dir m es) = Dir m (map (\<lambda>(k, y). if k = n then (k, x) else (k, y)) es)"
| "replace_entry n x (File c) = File c"

fun remove_entry ::
  "((string \<times> 't node) list \<Rightarrow> (string \<times> 't node) list) \<Rightarrow> 't \<Rightarrow> string \<Rightarrow> 't node \<Rightarrow> 't node" where
  "remove_entry re t n (Dir m es) = Dir t (re (filter (\<lambda>(k, y). k \<noteq> n) es))"
| "remove_entry re t n (File c) = File c"

text \<open>
  The directory in which the last component of \<open>p\<close> is looked up: its path and its
  entries, or the error of the resolution.
\<close>

definition resolve_parent :: "'t node \<Rightarrow> path \<Rightarrow> error + path \<times> (string \<times> 't node) list" where
  "resolve_parent root p =
     (case realpath root [] (butlast p) of
        Inl e \<Rightarrow> Inl e
      | Inr d \<Rightarrow>
          (case lookup root d of
             None \<Rightarrow> Inl FileNotFoundError
           | Some (File c) \<Rightarrow> Inl NotADirectoryError
           | Some (Dir m es) \<Rightarrow> Inr (d, es)))"

text \<open>
  \<open>os.mkdir(p)\<close> for a path with root \<open>/\<close>. A zero character is refused by Python and a
  text of \<open>PATH_MAX\<close> bytes or more by the operating system, before the walk; a last
  component of more than \<open>NAME_MAX\<close> bytes is refused when it is looked up.
\<close>

definition mkdir :: "'t world \<Rightarrow> path \<Rightarrow> error + 't node" where
  "mkdir w p =
     (if has_nul p then Inl ValueError
      else if PATH_MAX \<le> utf8_length (path_str (''/'', p)) then Inl (OSError ENAMETOOLONG)
      else if p = [] then Inl FileExistsError
      else case resolve_parent (tree w) p of
        Inl e \<Rightarrow> Inl e
      | Inr (d, es) \<Rightarrow>
          if last p = ''..'' then Inl FileExistsError
          else if NAME_MAX < utf8_length (last p) then Inl (OSError ENAMETOOLONG)
          else if map_of es (last p) \<noteq> None then Inl FileExistsError
          else Inr (modify (add_entry (listing w) (clock w) (last p) (Dir (clock w) []))
                      (tree w) d))"

text \<open>
  \<open>p.write_text(content)\<close> for the path \<open>p\<close> given by its root and parts: the file is
  created, or its content replaced. The text is encoded as UTF-8 and line ends are
  written as they are.
\<close>

definition write_text :: "'t world \<Rightarrow> string \<times> path \<Rightarrow> string \<Rightarrow> error + 't node" where
  "write_text w rp content =
     (let p = snd rp in
      if has_nul p then Inl ValueError
      else if PATH_MAX \<le> utf8_length (path_str rp) then Inl (OSError ENAMETOOLONG)
      else if p = [] then Inl IsADirectoryError
      else case resolve_parent (tree w) p of
        Inl e \<Rightarrow> Inl e
      | Inr (d, es) \<Rightarrow>
          if last p = ''..'' then Inl IsADirectoryError
          else if NAME_MAX < utf8_length (last p) then Inl (OSError ENAMETOOLONG)
          else case map_of es (last p) of
            None \<Rightarrow>
              Inr (modify (add_entry (listing w) (clock w) (last p) (File content)) (tree w) d)
          | Some (Dir m sub) \<Rightarrow> Inl IsADirectoryError
          | Some (File c) \<Rightarrow> Inr (modify (replace_entry (last p) (File content)) (tree w) d))"

text \<open>
  \<open>tempfile.mkdtemp()\<close>: the first proposed name under which \<open>os.mkdir\<close> succeeds;
  \<open>FileExistsError\<close> moves on to the next name, any other error is raised, and so is
  \<open>FileExistsError\<close> when the names run out. The names tried are used up.
\<close>

fun mkdtemp :: "'t world \<Rightarrow> string list \<Rightarrow> (error + path) \<times> 't world" where
  "mkdtemp w [] = (Inl FileExistsError, w\<lparr>temp_names := []\<rparr>)"
| "mkdtemp w (n # ns) =
     (case mkdir w (tempdir w @ [n]) of
        Inl FileExistsError \<Rightarrow> mkdtemp w ns
      | Inl e \<Rightarrow> (Inl e, w\<lparr>temp_names := ns\<rparr>)
      | Inr t \<Rightarrow> (Inr (tempdir w @ [n]), w\<lparr>tree := t, temp_names := ns\<rparr>))"

text \<open>
  The end of \<open>with tempfile.TemporaryDirectory()\<close>: \<open>shutil.rmtree\<close> on the directory,
  where a directory that is no longer there is passed over and any other error is
  raised.
\<close>

definition cleanup :: "'t world \<Rightarrow> path \<Rightarrow> error option \<times> 't world" where
  "cleanup w p =
     (case resolve_parent (tree w) p of
        Inl FileNotFoundError \<Rightarrow> (None, w)
      | Inl e \<Rightarrow> (Some e, w)
      | Inr (d, es) \<Rightarrow>
          (case map_of es (last p) of
             None \<Rightarrow> (None, w)
           | Some (File c) \<Rightarrow> (Some NotADirectoryError, w)
           | Some (Dir m sub) \<Rightarrow>
               (None, w\<lparr>tree := modify (remove_entry (listing w) (clock w) (last p))
                                     (tree w) d\<rparr>)))"

section \<open>Paths as \<open>pathlib\<close> prints them\<close>

text \<open>
  A \<open>PosixPath\<close> is its root and its parts. The root of a text is empty when it does
  not start with a slash, \<open>//\<close> when it starts with exactly two, and \<open>/\<close> otherwise.
  \<open>truediv d s\<close> is \<open>d / s\<close> for a directory \<open>d\<close> with root \<open>/\<close>: an absolute \<open>s\<close> replaces
  \<open>d\<close>.
\<close>

definition path_root :: "string \<Rightarrow> string" where
  "path_root s =
     (if take 1 s \<noteq> ''/'' then []
      else if take 2 s = ''//'' \<and> take 3 s \<noteq> ''///'' then ''//''
      else ''/'')"

definition truediv :: "path \<Rightarrow> string \<Rightarrow> string \<times> path" where
  "truediv d s = (if path_root s = [] then (''/'', d @ parse_parts s) else (path_root s, parse_parts s))"

section \<open>Generating an endpoint\<close>

text \<open>
  What \<open>subprocess.run\<close> returns, and the external generator: given the command, the
  environment and the world, the process either cannot be started (\<open>subprocess.run\<close>
  raises) or runs to its end, and leaves a world behind. Its output is the decoded
  text.
\<close>

record completed =
  proc_stdout :: string
  proc_stderr :: string
  returncode :: int

type_synonym 't cli =
  "string list \<Rightarrow> (string \<rightharpoonup> string) \<Rightarrow> 't world \<Rightarrow> (error + completed) \<times> 't world"

record gen_result =
  session_id :: "string option"
  output_dir :: string
  files :: "string list"
  stdout :: string
  stderr :: string
  exit_code :: int

text \<open>
  The loop \<open># Write config files\<close>: each file is written and its path appended; a
  write that fails ends the loop with the files written so far in place.
\<close>

fun write_config_files ::
  "'t world \<Rightarrow> path \<Rightarrow> (string \<times> string) list \<Rightarrow> (error + string list) \<times> 't world" where
  "write_config_files w config_dir [] = (Inr [], w)"
| "write_config_files w config_dir ((filename, content) # rest) =
     (let file_path = truediv config_dir filename in
      case write_text w file_path content of
        Inl e \<Rightarrow> (Inl e, w)
      | Inr t \<Rightarrow>
          (case write_config_files (w\<lparr>tree := t\<rparr>) config_dir rest of
             (Inl e, w') \<Rightarrow> (Inl e, w')
           | (Inr config_paths, w') \<Rightarrow> (Inr (path_str file_path # config_paths), w')))"

text \<open>
  Config staging, the first lines of the \<open>with\<close> block: \<open>config_dir.mkdir()\<close> and the
  loop.
\<close>

definition stage_config ::
  "'t world \<Rightarrow> path \<Rightarrow> (string \<times> string) list \<Rightarrow> (error + string list) \<times> 't world" where
  "stage_config w temp_path config_files_content =
     (let config_dir = temp_path @ [''config''] in
      case mkdir w config_dir of
        Inl e \<Rightarrow> (Inl e, w)
      | Inr t \<Rightarrow> write_config_files (w\<lparr>tree := t\<rparr>) config_dir config_files_content)"

text \<open>
  The block \<open># Get generated files\<close>: the regular files below the customer's directory,
  as the text of their paths relative to \<open>/output\<close>; \<open>exists()\<close> can raise.
\<close>

definition generated_files :: "'t node \<Rightarrow> string \<Rightarrow> error + string list" where
  "generated_files root customer_name =
     (let output_dir = ''output'' # parse_parts customer_name in
      case py_exists root output_dir of
        Inl e \<Rightarrow> Inl e
      | Inr False \<Rightarrow> Inr []
      | Inr True \<Rightarrow>
          Inr (map (\<lambda>f. join ''/'' (parse_parts customer_name @ fst f))
                 (filter (\<lambda>f. is_file (snd f)) (rglob_path root output_dir))))"

text \<open>
  What follows the subprocess: the session identifier, the files, and the dictionary
  returned. \<open>volume.commit()\<close> publishes the writes to other containers and changes
  nothing in this one; the two \<open>print\<close> calls are left out.
\<close>

definition collect_result :: "'t world \<Rightarrow> string \<Rightarrow> completed \<Rightarrow> error + gen_result" where
  "collect_result w customer_name result =
     (let session_id = parse_session_id (proc_stdout result) in
      case generated_files (tree w) customer_name of
        Inl e \<Rightarrow> Inl e
      | Inr generated \<Rightarrow>
          Inr \<lparr>session_id = session_id,
               output_dir = path_str (''/'', ''output'' # parse_parts customer_name),
               files = generated,
               stdout = proc_stdout result,
               stderr = proc_stderr result,
               exit_code = returncode result\<rparr>)"

text \<open>
  The body of the \<open>with\<close> block. The environment of the child is \<open>os.environ\<close> with
  \<open>ANTHROPIC_API_KEY\<close> set to its own value, and the lookup raises \<open>KeyError\<close> when
  the variable is missing, after the files have been staged.
\<close>

definition with_temp_dir ::
  "((string \<times> string) list \<Rightarrow> string) \<Rightarrow> 't cli \<Rightarrow> 't world \<Rightarrow> path \<Rightarrow> string \<Rightarrow> string \<Rightarrow>
   (string \<times> string) list \<Rightarrow> string list \<Rightarrow> (string \<times> string) list option \<Rightarrow> string option \<Rightarrow>
   string option \<Rightarrow> bool \<Rightarrow> (error + gen_result) \<times> 't world" where
  "with_temp_dir json_dumps cli w temp_path customer_name sap_version config_files_content
     quote_fields custom_fields special_logic resume_session_id fork_session =
     (case stage_config w temp_path config_files_content of
        (Inl e, w1) \<Rightarrow> (Inl e, w1)
      | (Inr config_paths, w1) \<Rightarrow>
          (let cmd = build_cmd json_dumps customer_name sap_version config_paths quote_fields
                       custom_fields special_logic resume_session_id fork_session in
           case environ w1 ''ANTHROPIC_API_KEY'' of
             None \<Rightarrow> (Inl (KeyError ''ANTHROPIC_API_KEY''), w1)
           | Some key \<Rightarrow>
               (case cli cmd ((environ w1)(''ANTHROPIC_API_KEY'' \<mapsto> key)) w1 of
                  (Inl e, w2) \<Rightarrow> (Inl e, w2)
                | (Inr result, w2) \<Rightarrow> (collect_result w2 customer_name result, w2))))"

text \<open>
  \<open>generate_endpoint\<close>: the temporary directory is created, the body runs, and the
  directory is removed whether the body returned or raised; an error of the removal is
  the one that is raised.
\<close>

definition generate_endpoint ::
  "((string \<times> string) list \<Rightarrow> string) \<Rightarrow> 't cli \<Rightarrow> 't world \<Rightarrow> string \<Rightarrow> string \<Rightarrow>
   (string \<times> string) list \<Rightarrow> string list \<Rightarrow> (string \<times> string) list option \<Rightarrow> string option \<Rightarrow>
   string option \<Rightarrow> bool \<Rightarrow> (error + gen_result) \<times> 't world" where
  "generate_endpoint json_dumps cli w customer_name sap_version config_files_content
     quote_fields custom_fields special_logic resume_session_id fork_session =
     (case mkdtemp w (temp_names w) of
        (Inl e, w0) \<Rightarrow> (Inl e, w0)
      | (Inr temp_path, w0) \<Rightarrow>
          (case with_temp_dir json_dumps cli w0 temp_path customer_name sap_version
                  config_files_content quote_fields custom_fields special_logic
                  resume_session_id fork_session of
             (r, w1) \<Rightarrow>
               (case cleanup w1 temp_path of
                  (None, w2) \<Rightarrow> (r, w2)
                | (Some e, w2) \<Rightarrow> (Inl e, w2))))"

section \<open>The HTTP facade\<close>

text \<open>
  The body of the request, with the values at the types that the docstring of
  \<open>api_generate\<close> gives them. \<open>None\<close> is a key that is absent, and for the optional
  keys also a value that is null.
\<close>

record item =
  item_customer_name :: "string option"
  item_sap_version :: "string option"
  item_config_files :: "(string \<times> string) list option"
  item_quote_fields :: "string list option"
  item_custom_fields :: "(string \<times> string) list option"
  item_special_logic :: "string option"
  item_resume_session_id :: "string option"
  item_fork_session :: "bool option"

text \<open>\<open>item[k]\<close>: the value, or \<open>KeyError\<close>.\<close>

definition getitem :: "'a option \<Rightarrow> string \<Rightarrow> error + 'a" where
  "getitem v k = (case v of None \<Rightarrow> Inl (KeyError k) | Some x \<Rightarrow> Inr x)"

text \<open>
  \<open>api_generate\<close>. The arguments are evaluated in the order written, so the first
  required key that is missing raises; \<open>generate_endpoint.remote\<close> runs
  \<open>generate_endpoint\<close> in the world \<open>w\<close> of its container.
\<close>

definition api_generate ::
  "((string \<times> string) list \<Rightarrow> string) \<Rightarrow> 't cli \<Rightarrow> 't world \<Rightarrow> item \<Rightarrow>
   (error + gen_result) \<times> 't world" where
  "api_generate json_dumps cli w it =
     (case getitem (item_customer_name it) ''customer_name'' of
        Inl e \<Rightarrow> (Inl e, w)
      | Inr customer_name \<Rightarrow>
     (case getitem (item_sap_version it) ''sap_version'' of
        Inl e \<Rightarrow> (Inl e, w)
      | Inr sap_version \<Rightarrow>
     (case getitem (item_config_files it) ''config_files'' of
        Inl e \<Rightarrow> (Inl e, w)
      | Inr config_files \<Rightarrow>
     (case getitem (item_quote_fields it) ''quote_fields'' of
        Inl e \<Rightarrow> (Inl e, w)
      | Inr quote_fields \<Rightarrow>
          generate_endpoint json_dumps cli w customer_name sap_version config_files
            quote_fields (item_custom_fields it) (item_special_logic it)
            (item_resume_session_id it)
            (case item_fork_session it of None \<Rightarrow> False | Some b \<Rightarrow> b)))))"

section \<open>The scratch directory that staging is to produce\<close>



text \<open>
  A generator for experiments: it prints the entries of the directory \<open>d\<close> that it
  finds, each as \<open>name=content\<close>, and changes nothing.
\<close>

fun show_entry :: "string \<times> 't node \<Rightarrow> string" where
  "show_entry (n, File c) = n @ ''='' @ c"
| "show_entry (n, Dir t es) = n @ ''/''"

definition ls_cli :: "path \<Rightarrow> int \<Rightarrow> 't cli" where
  "ls_cli d rc cmd env w =
     (Inr \<lparr>proc_stdout = (case stat (tree w) d of
                              Inr (Dir t es) \<Rightarrow> join '','' (map show_entry es)
                            | _ \<Rightarrow> ''?''),
           proc_stderr = [],
           returncode = rc\<rparr>, w)"

definition demo_world :: "int world" where
  "demo_world =
     \<lparr>tree = demo_root, clock = 7, listing = rev,
      environ = [''ANTHROPIC_API_KEY'' \<mapsto> ''sk''],
      tempdir = [''tmp''], temp_names = [''tmpa'', ''tmpb'']\<rparr>"



section \<open>Facts about the string functions\<close>

lemma contains_iff: "contains sub s \<longleftrightarrow> (\<exists>pre suf. s = pre @ sub @ suf)"
proof (induction s)
  case Nil
  then show ?case by auto
next
  case (Cons c cs)
  show ?case
  proof
    assume "contains sub (c # cs)"
    then consider "prefix sub (c # cs)" | "contains sub cs" by auto
    then show "\<exists>pre suf. c # cs = pre @ sub @ suf"
    proof cases
      case 1
      then obtain suf where "c # cs = sub @ suf" by (auto simp: prefix_def)
      then have "c # cs = [] @ sub @ suf" by simp
      then show ?thesis by blast
    next
      case 2
      with Cons.IH obtain pre suf where "cs = pre @ sub @ suf" by blast
      then have "c # cs = (c # pre) @ sub @ suf" by simp
      then show ?thesis by blast
    qed
  next
    assume "\<exists>pre suf. c # cs = pre @ sub @ suf"
    then obtain pre suf where eq: "c # cs = pre @ sub @ suf" by blast
    show "contains sub (c # cs)"
    proof (cases pre)
      case Nil
      with eq have "prefix sub (c # cs)" by (simp add: prefix_def)
      then show ?thesis by simp
    next
      case (Cons p ps)
      with eq have "cs = ps @ sub @ suf" by simp
      with Cons.IH have "contains sub cs" by blast
      then show ?thesis by simp
    qed
  qed
qed

lemma split_from_nonempty: "split_from sep acc s \<noteq> []"
  by (induction sep acc s rule: split_from.induct) auto

lemma split_from_no_sep:
  "sep \<noteq> [] \<Longrightarrow> \<not> contains sep s \<Longrightarrow> split_from sep acc s = [acc @ s]"
  by (induction sep acc s rule: split_from.induct) auto

lemma split_from_last:
  "sep \<noteq> [] \<Longrightarrow> contains sep s \<Longrightarrow>
   \<exists>pre. s = pre @ sep @ last (split_from sep acc s) \<and>
          \<not> contains sep (last (split_from sep acc s))"
proof (induction sep acc s rule: split_from.induct)
  case (1 sep acc)
  then show ?case by simp
next
  case (2 sep acc c cs)
  show ?case
  proof (cases "prefix sep (c # cs)")
    case True
    define rest where "rest = drop (length sep - 1) cs"
    from True \<open>sep \<noteq> []\<close> have s: "c # cs = sep @ rest"
      by (cases sep) (auto simp: prefix_def rest_def)
    have sf: "split_from sep acc (c # cs) = acc # split_from sep [] rest"
      using True by (simp add: rest_def)
    show ?thesis
    proof (cases "contains sep rest")
      case c: True
      from 2(1)[OF True \<open>sep \<noteq> []\<close>] c obtain pre where
        "rest = pre @ sep @ last (split_from sep [] rest)"
        "\<not> contains sep (last (split_from sep [] rest))"
        by (auto simp: rest_def)
      moreover have "split_from sep [] rest \<noteq> []" by (rule split_from_nonempty)
      ultimately have "c # cs = (sep @ pre) @ sep @ last (split_from sep acc (c # cs))"
        "\<not> contains sep (last (split_from sep acc (c # cs)))"
        using s sf by auto
      then show ?thesis by blast
    next
      case c: False
      then have "split_from sep [] rest = [rest]"
        using split_from_no_sep[OF \<open>sep \<noteq> []\<close>, of rest "[]"] by simp
      with s sf c have "c # cs = [] @ sep @ last (split_from sep acc (c # cs))"
        "\<not> contains sep (last (split_from sep acc (c # cs)))" by auto
      then show ?thesis by blast
    qed
  next
    case False
    with "2.prems" have c: "contains sep cs" by simp
    from 2(2)[OF False \<open>sep \<noteq> []\<close> c] obtain pre where
      "cs = pre @ sep @ last (split_from sep (acc @ [c]) cs)"
      "\<not> contains sep (last (split_from sep (acc @ [c]) cs))" by blast
    with False have "c # cs = (c # pre) @ sep @ last (split_from sep acc (c # cs))"
      "\<not> contains sep (last (split_from sep acc (c # cs)))" by auto
    then show ?thesis by blast
  qed
qed

lemma scan_lines_None: "\<not> list_ex (contains marker) ls \<Longrightarrow> scan_lines ls = None"
  by (induction ls) auto

lemma scan_lines_first:
  "\<not> list_ex (contains marker) before \<Longrightarrow> contains marker l \<Longrightarrow>
   scan_lines (before @ l # after) = Some (strip (last (str_split marker l)))"
  by (induction before) auto

lemma marker_no_border:
  assumes "k < 11" "k \<noteq> 0"
  shows "marker ! k \<noteq> marker ! 0"
proof -
  from assms have "k = 1 \<or> k = 2 \<or> k = 3 \<or> k = 4 \<or> k = 5 \<or> k = 6 \<or> k = 7 \<or> k = 8 \<or> k = 9 \<or> k = 10"
    by arith
  then show ?thesis by (auto simp: marker_def)
qed

lemma marker_overlap:
  assumes "marker @ s1 = us @ marker @ s2" "\<not> contains marker s1"
  shows "us = []"
proof (rule ccontr)
  assume ne: "us \<noteq> []"
  have len: "length marker = 11" by (simp add: marker_def)
  show False
  proof (cases "length us < 11")
    case True
    have "(marker @ s1) ! length us = marker ! length us"
      using True len by (simp add: nth_append)
    moreover have "(us @ marker @ s2) ! length us = marker ! 0"
      using len by (simp add: nth_append)
    ultimately have "marker ! length us = marker ! 0" using assms(1) by simp
    with marker_no_border[OF True] ne show False by simp
  next
    case False
    with len have "length marker \<le> length us" by simp
    with assms(1) obtain vs where "us = marker @ vs"
      by (metis append_eq_append_conv_if append_take_drop_id)
    with assms(1) have "s1 = vs @ marker @ s2" by simp
    then have "contains marker s1" unfolding contains_iff by blast
    with assms(2) show False by simp
  qed
qed

lemma marker_suffix_unique:
  assumes "l = p1 @ marker @ s1" "l = p2 @ marker @ s2"
    and "\<not> contains marker s1" "\<not> contains marker s2"
  shows "s1 = s2"
proof -
  from assms(1,2) have "p1 @ marker @ s1 = p2 @ marker @ s2" by simp
  then obtain us where "(p1 = p2 @ us \<and> us @ marker @ s1 = marker @ s2) \<or>
      (p1 @ us = p2 \<and> marker @ s1 = us @ marker @ s2)"
    using append_eq_append_conv2[of p1 "marker @ s1" p2 "marker @ s2"] by blast
  then show ?thesis
  proof
    assume a: "p1 = p2 @ us \<and> us @ marker @ s1 = marker @ s2"
    then have "marker @ s2 = us @ marker @ s1" by simp
    from marker_overlap[OF this assms(4)] a show ?thesis by simp
  next
    assume a: "p1 @ us = p2 \<and> marker @ s1 = us @ marker @ s2"
    from marker_overlap[OF conjunct2[OF a] assms(3)] a show ?thesis by simp
  qed
qed

lemma build_cmd_closed:
  "build_cmd jd c v ps qf cf sl rs fk =
     [''node'', ''/app/dist/cli.js'', ''quote'', ''--customer'', c, ''--sap-version'', v,
      ''--config-files''] @ ps @ [''--output'', ''/output'', ''--fields''] @ qf @
     (case cf of None \<Rightarrow> [] | Some d \<Rightarrow> if d \<noteq> [] then [''--custom-fields'', jd d] else []) @
     (case sl of None \<Rightarrow> [] | Some s \<Rightarrow> if s \<noteq> [] then [''--special-logic'', s] else []) @
     (case rs of None \<Rightarrow> [] | Some r \<Rightarrow> if r \<noteq> [] then [''--resume'', r] else []) @
     (if (\<exists>r. rs = Some r \<and> r \<noteq> []) \<and> fk then [''--fork''] else [])"
  by (cases cf; cases sl; cases rs) (simp_all add: build_cmd_def Let_def)


section \<open>Facts about paths and globbing\<close>


















section \<open>Facts about member names and the archive\<close>

lemma split_from_slash_free:
  "CHR ''/'' \<notin> set s \<Longrightarrow> split_from ''/'' acc s = [acc @ s]"
  by (induction s arbitrary: acc) auto









section \<open>Facts about the listing\<close>





section \<open>Facts about counting files\<close>

lemma select_children_files:
  "length (filter (\<lambda>a. is_file (snd a)) (select_children (p, Dir t es))) =
   length (filter (\<lambda>a. is_file (snd a)) es)"
  by (induction es) auto

lemma rglob_files_aux:
  "is_dir (x :: 't node) \<Longrightarrow>
     length (filter (\<lambda>a. is_file (snd a)) (concat (map select_children (iterate_directories p x)))) =
     regular_files x"
  "length (filter (\<lambda>a. is_file (snd a)) (concat (map select_children (iterate_entries p es)))) +
     length (filter (\<lambda>a. is_file (snd a)) (es :: (string \<times> 't node) list)) = regular_files_entries es"
proof (induction p x and p es rule: iterate_directories_iterate_entries.induct)
  case (2 p t es)
  then show ?case
    by (simp add: select_children_files del: select_children.simps)
next
  case (4 p n x es)
  then show ?case by (cases x) auto
qed auto

lemma rglob_regular_files:
  "length (filter (\<lambda>a. is_file (snd a)) (rglob (Dir t es))) = regular_files (Dir t es)"
  unfolding rglob_def by (rule rglob_files_aux(1)) simp


section \<open>Facts about lookups that fail\<close>

lemmas stat_eval = stat_def has_nul_def path_str_def utf8_length_def

lemma realpath_errors:
  "realpath root cur cs = Inl e \<Longrightarrow>
   e = FileNotFoundError \<or> e = NotADirectoryError \<or>
   (e = OSError ENAMETOOLONG \<and> (\<exists>c \<in> set cs. NAME_MAX < utf8_length c))"
  by (induction cs arbitrary: cur) (auto split: option.splits node.splits if_splits)

lemma stat_errors:
  "stat root p = Inl e \<Longrightarrow>
   e = FileNotFoundError \<or> e = NotADirectoryError \<or> e = ValueError \<or> e = OSError ENAMETOOLONG"
  by (auto simp: stat_def split: if_splits sum.splits option.splits dest: realpath_errors)

lemma stat_too_long:
  "stat root p = Inl (OSError ENAMETOOLONG) \<Longrightarrow>
   PATH_MAX \<le> utf8_length (path_str (''/'', p)) \<or> (\<exists>c \<in> set p. NAME_MAX < utf8_length c)"
  by (auto simp: stat_def split: if_splits sum.splits option.splits dest: realpath_errors)


section \<open>Facts about writing\<close>















section \<open>Facts about config staging\<close>









section \<open>Facts about the temporary directory\<close>








section \<open>Facts about the exit code and the length of paths\<close>



lemma utf8_length_append: "utf8_length (a @ b) = utf8_length a + utf8_length b"
  by (simp add: utf8_length_def)




section \<open>The session identifier is read from the first line holding the marker\<close>

text \<open>
  Claim C6. With the lines of the captured standard output being
  \<open>stdout.split("\n")\<close>: when no line contains \<open>Session ID:\<close> the session identifier
  is \<open>None\<close>; otherwise, with \<open>l\<close> the first line that contains it, the identifier is
  the stripped text that follows the marker in \<open>l\<close>: the text behind the occurrence
  after which the marker does not occur again, and there is one such text only.
\<close>

theorem session_id_extraction:
  "(\<not> list_ex (contains marker) (str_split [CHR 0x0A] s) \<longrightarrow>
      parse_session_id s = None) \<and>
   (\<forall>before l after.
      str_split [CHR 0x0A] s = before @ l # after \<and>
      \<not> list_ex (contains marker) before \<and> contains marker l \<longrightarrow>
      (\<exists>pre suf. l = pre @ marker @ suf \<and> \<not> contains marker suf \<and>
         (\<forall>pre' suf'. l = pre' @ marker @ suf' \<and> \<not> contains marker suf' \<longrightarrow> suf' = suf) \<and>
         parse_session_id s = Some (strip suf)))"
proof (intro conjI allI impI)
  assume "\<not> list_ex (contains marker) (str_split [CHR 0x0A] s)"
  then show "parse_session_id s = None"
    by (simp add: parse_session_id_def scan_lines_None)
next
  fix before l after
  assume a: "str_split [CHR 0x0A] s = before @ l # after \<and>
      \<not> list_ex (contains marker) before \<and> contains marker l"
  have m: "marker \<noteq> []" by (simp add: marker_def)
  from a have p: "parse_session_id s = Some (strip (last (str_split marker l)))"
    by (simp add: parse_session_id_def scan_lines_first)
  from split_from_last[OF m, of l "[]"] a obtain pre where
    "l = pre @ marker @ last (str_split marker l)"
    "\<not> contains marker (last (str_split marker l))"
    by (auto simp: str_split_def)
  moreover from this have "\<forall>pre' suf'. l = pre' @ marker @ suf' \<and> \<not> contains marker suf' \<longrightarrow>
      suf' = last (str_split marker l)"
    using marker_suffix_unique by blast
  ultimately show "\<exists>pre suf. l = pre @ marker @ suf \<and> \<not> contains marker suf \<and>
         (\<forall>pre' suf'. l = pre' @ marker @ suf' \<and> \<not> contains marker suf' \<longrightarrow> suf' = suf) \<and>
         parse_session_id s = Some (strip suf)" using p by blast
qed

theorem session_id_extraction_witness:
  "str_split [CHR 0x0A] (''Starting'' @ [CHR 0x0A] @ ''Session ID: abc123'' @ [CHR 0x0A] @ ''Done'')
     = [''Starting''] @ ''Session ID: abc123'' # [''Done''] \<and>
   \<not> list_ex (contains marker) [''Starting''] \<and>
   contains marker ''Session ID: abc123'' \<and>
   (\<exists>pre suf. ''Session ID: abc123'' = pre @ marker @ suf \<and> \<not> contains marker suf \<and>
      (\<forall>pre' suf'. ''Session ID: abc123'' = pre' @ marker @ suf' \<and> \<not> contains marker suf' \<longrightarrow>
         suf' = suf) \<and>
      parse_session_id (''Starting'' @ [CHR 0x0A] @ ''Session ID: abc123'' @ [CHR 0x0A] @ ''Done'')
        = Some (strip suf)) \<and>
   parse_session_id (''Starting'' @ [CHR 0x0A] @ ''Session ID: abc123'' @ [CHR 0x0A] @ ''Done'')
     = Some ''abc123'' \<and>
   parse_session_id ''no marker here'' = None"
proof -
  let ?out = "''Starting'' @ [CHR 0x0A] @ ''Session ID: abc123'' @ [CHR 0x0A] @ ''Done''"
  have 1: "str_split [CHR 0x0A] ?out = [''Starting''] @ ''Session ID: abc123'' # [''Done'']"
    by code_simp
  have 2: "\<not> list_ex (contains marker) [''Starting'']" by code_simp
  have 3: "contains marker ''Session ID: abc123''" by code_simp
  have 4: "parse_session_id ?out = Some ''abc123''" by code_simp
  have 5: "\<not> list_ex (contains marker) (str_split [CHR 0x0A] ''no marker here'')" by code_simp
  from session_id_extraction[of ?out] 1 2 3
  have 6: "\<exists>pre suf. ''Session ID: abc123'' = pre @ marker @ suf \<and> \<not> contains marker suf \<and>
      (\<forall>pre' suf'. ''Session ID: abc123'' = pre' @ marker @ suf' \<and> \<not> contains marker suf' \<longrightarrow>
         suf' = suf) \<and>
      parse_session_id ?out = Some (strip suf)" by blast
  from session_id_extraction[of "''no marker here''"] 5
  have 7: "parse_session_id ''no marker here'' = None" by blast
  from 1 2 3 4 6 7 show ?thesis by blast
qed

section \<open>The optional flags of the command line\<close>

text \<open>
  Claim C9. Every command is the fixed words with the arguments, then
  \<open>--custom-fields\<close>, \<open>--special-logic\<close> and \<open>--resume\<close> with their values where these
  are given and not empty, and then \<open>--fork\<close>, which is appended exactly when
  \<open>resume_session_id\<close> is a non-empty string and \<open>fork_session\<close> is true. So in that
  case the command ends in \<open>--fork\<close>; in every other case the command holds no
  \<open>--fork\<close>, unless one of the caller's own words is \<open>--fork\<close>; and with
  \<open>resume_session_id\<close> null or empty, \<open>fork_session = True\<close> gives the same command as
  \<open>fork_session = False\<close>.
\<close>

theorem fork_flag_iff:
  "build_cmd jd c v ps qf cf sl rs fk =
     [''node'', ''/app/dist/cli.js'', ''quote'', ''--customer'', c, ''--sap-version'', v,
      ''--config-files''] @ ps @ [''--output'', ''/output'', ''--fields''] @ qf @
     (case cf of None \<Rightarrow> [] | Some d \<Rightarrow> if d \<noteq> [] then [''--custom-fields'', jd d] else []) @
     (case sl of None \<Rightarrow> [] | Some s \<Rightarrow> if s \<noteq> [] then [''--special-logic'', s] else []) @
     (case rs of None \<Rightarrow> [] | Some r \<Rightarrow> if r \<noteq> [] then [''--resume'', r] else []) @
     (if (\<exists>r. rs = Some r \<and> r \<noteq> []) \<and> fk then [''--fork''] else []) \<and>
   ((\<exists>r. rs = Some r \<and> r \<noteq> []) \<and> fk \<longrightarrow>
      last (build_cmd jd c v ps qf cf sl rs fk) = ''--fork'') \<and>
   (\<not> ((\<exists>r. rs = Some r \<and> r \<noteq> []) \<and> fk) \<and>
    ''--fork'' \<notin> set ([c, v] @ ps @ qf) \<and> (\<forall>d. cf = Some d \<longrightarrow> jd d \<noteq> ''--fork'') \<and>
    sl \<noteq> Some ''--fork'' \<and> rs \<noteq> Some ''--fork'' \<longrightarrow>
      ''--fork'' \<notin> set (build_cmd jd c v ps qf cf sl rs fk)) \<and>
   (rs = None \<or> rs = Some [] \<longrightarrow>
     build_cmd jd c v ps qf cf sl rs True = build_cmd jd c v ps qf cf sl rs False)"
proof (intro conjI impI)
  show "build_cmd jd c v ps qf cf sl rs fk =
     [''node'', ''/app/dist/cli.js'', ''quote'', ''--customer'', c, ''--sap-version'', v,
      ''--config-files''] @ ps @ [''--output'', ''/output'', ''--fields''] @ qf @
     (case cf of None \<Rightarrow> [] | Some d \<Rightarrow> if d \<noteq> [] then [''--custom-fields'', jd d] else []) @
     (case sl of None \<Rightarrow> [] | Some s \<Rightarrow> if s \<noteq> [] then [''--special-logic'', s] else []) @
     (case rs of None \<Rightarrow> [] | Some r \<Rightarrow> if r \<noteq> [] then [''--resume'', r] else []) @
     (if (\<exists>r. rs = Some r \<and> r \<noteq> []) \<and> fk then [''--fork''] else [])"
    by (rule build_cmd_closed)
next
  assume "(\<exists>r. rs = Some r \<and> r \<noteq> []) \<and> fk"
  then show "last (build_cmd jd c v ps qf cf sl rs fk) = ''--fork''"
    by (subst build_cmd_closed) (simp del: append_assoc add: append_assoc[symmetric])
next
  assume a: "\<not> ((\<exists>r. rs = Some r \<and> r \<noteq> []) \<and> fk) \<and>
    ''--fork'' \<notin> set ([c, v] @ ps @ qf) \<and> (\<forall>d. cf = Some d \<longrightarrow> jd d \<noteq> ''--fork'') \<and>
    sl \<noteq> Some ''--fork'' \<and> rs \<noteq> Some ''--fork''"
  have 1: "''--fork'' \<notin> set [''node'', ''/app/dist/cli.js'', ''quote'', ''--customer'',
      ''--sap-version'', ''--config-files'', ''--output'', ''/output'', ''--fields'',
      ''--custom-fields'', ''--special-logic'', ''--resume'']" by simp
  have 2: "''--fork'' \<notin> set (case cf of None \<Rightarrow> []
      | Some d \<Rightarrow> if d \<noteq> [] then [''--custom-fields'', jd d] else [])"
    using a 1 by (cases cf) auto
  have 3: "''--fork'' \<notin> set (case sl of None \<Rightarrow> []
      | Some s \<Rightarrow> if s \<noteq> [] then [''--special-logic'', s] else [])"
    using a 1 by (cases sl) auto
  have 4: "''--fork'' \<notin> set (case rs of None \<Rightarrow> []
      | Some r \<Rightarrow> if r \<noteq> [] then [''--resume'', r] else [])"
    using a 1 by (cases rs) auto
  have 5: "(if (\<exists>r. rs = Some r \<and> r \<noteq> []) \<and> fk then [''--fork''] else []) = []"
    using a by simp
  from a 1 have 6: "''--fork'' \<notin> set ([''node'', ''/app/dist/cli.js'', ''quote'', ''--customer'',
      c, ''--sap-version'', v, ''--config-files''] @ ps @ [''--output'', ''/output'', ''--fields'']
      @ qf)" by auto
  show "''--fork'' \<notin> set (build_cmd jd c v ps qf cf sl rs fk)"
    unfolding build_cmd_closed 5 using 2 3 4 6 by (simp only: set_append Un_iff append_Nil2) blast
next
  assume "rs = None \<or> rs = Some []"
  then show "build_cmd jd c v ps qf cf sl rs True = build_cmd jd c v ps qf cf sl rs False"
    by (auto simp: build_cmd_def)
qed

theorem fork_flag_iff_witness:
  "last (build_cmd (\<lambda>d. ''{}'') ''acme'' ''ECC6'' [''/tmp/t/config/a.txt''] [''customer_id'']
      None None (Some ''s1'') True) = ''--fork'' \<and>
   ''--fork'' \<notin> set (build_cmd (\<lambda>d. ''{}'') ''acme'' ''ECC6'' [''/tmp/t/config/a.txt'']
      [''customer_id''] None None (Some ''s1'') False) \<and>
   ''--fork'' \<notin> set (build_cmd (\<lambda>d. ''{}'') ''acme'' ''ECC6'' [''/tmp/t/config/a.txt'']
      [''customer_id''] None None None True) \<and>
   build_cmd (\<lambda>d. ''{}'') ''acme'' ''ECC6'' [''/tmp/t/config/a.txt''] [''customer_id'']
      None None None True =
     build_cmd (\<lambda>d. ''{}'') ''acme'' ''ECC6'' [''/tmp/t/config/a.txt''] [''customer_id'']
      None None None False \<and>
   build_cmd (\<lambda>d. ''{}'') ''acme'' ''ECC6'' [''/tmp/t/config/a.txt''] [''customer_id'']
      None None (Some ''s1'') True =
     [''node'', ''/app/dist/cli.js'', ''quote'', ''--customer'', ''acme'', ''--sap-version'',
      ''ECC6'', ''--config-files'', ''/tmp/t/config/a.txt'', ''--output'', ''/output'',
      ''--fields'', ''customer_id'', ''--resume'', ''s1'', ''--fork'']"
proof -
  let ?jd = "\<lambda>d :: (string \<times> string) list. ''{}''"
  note t1 = fork_flag_iff[of ?jd "''acme''" "''ECC6''" "[''/tmp/t/config/a.txt'']"
      "[''customer_id'']" None None "Some ''s1''" True]
  note t2 = fork_flag_iff[of ?jd "''acme''" "''ECC6''" "[''/tmp/t/config/a.txt'']"
      "[''customer_id'']" None None "Some ''s1''" False]
  note t3 = fork_flag_iff[of ?jd "''acme''" "''ECC6''" "[''/tmp/t/config/a.txt'']"
      "[''customer_id'']" None None None True]
  have a: "last (build_cmd ?jd ''acme'' ''ECC6'' [''/tmp/t/config/a.txt''] [''customer_id'']
      None None (Some ''s1'') True) = ''--fork''"
    using t1 by (simp add: build_cmd_def)
  have b: "''--fork'' \<notin> set (build_cmd ?jd ''acme'' ''ECC6'' [''/tmp/t/config/a.txt'']
      [''customer_id''] None None (Some ''s1'') False)"
    using t2 by (simp add: build_cmd_def)
  have c: "''--fork'' \<notin> set (build_cmd ?jd ''acme'' ''ECC6'' [''/tmp/t/config/a.txt'']
      [''customer_id''] None None None True)"
    using t3 by (simp add: build_cmd_def)
  have d: "build_cmd ?jd ''acme'' ''ECC6'' [''/tmp/t/config/a.txt''] [''customer_id'']
      None None None True =
     build_cmd ?jd ''acme'' ''ECC6'' [''/tmp/t/config/a.txt''] [''customer_id'']
      None None None False"
    using t3 by (simp add: build_cmd_def)
  have e: "build_cmd ?jd ''acme'' ''ECC6'' [''/tmp/t/config/a.txt''] [''customer_id'']
      None None (Some ''s1'') True =
     [''node'', ''/app/dist/cli.js'', ''quote'', ''--customer'', ''acme'', ''--sap-version'',
      ''ECC6'', ''--config-files'', ''/tmp/t/config/a.txt'', ''--output'', ''/output'',
      ''--fields'', ''customer_id'', ''--resume'', ''s1'', ''--fork'']"
    using t1 by (simp add: build_cmd_def)
  from a b c d e show ?thesis by blast
qed

text \<open>
  Claim C10. An empty \<open>custom_fields\<close> mapping and an empty \<open>special_logic\<close> string
  give the command that \<open>None\<close> gives: neither \<open>--custom-fields\<close> nor
  \<open>--special-logic\<close> is added.
\<close>

theorem empty_optionals_as_null:
  "build_cmd jd c v ps qf (Some []) sl rs fk = build_cmd jd c v ps qf None sl rs fk \<and>
   build_cmd jd c v ps qf cf (Some []) rs fk = build_cmd jd c v ps qf cf None rs fk \<and>
   build_cmd jd c v ps qf (Some []) (Some []) None fk =
     [''node'', ''/app/dist/cli.js'', ''quote'', ''--customer'', c, ''--sap-version'', v,
      ''--config-files''] @ ps @ [''--output'', ''/output'', ''--fields''] @ qf"
  by (simp add: build_cmd_def)


section \<open>Downloads\<close>

text \<open>
  Claim C2 as stated, for every customer name without an output subdirectory, fails.
  Where a regular file is at the customer's path there is no directory, and
  \<open>download_generated_code\<close> returns an empty archive, since it tests \<open>exists()\<close>. And
  for a name of 256 bytes nothing is at the path, and the error is \<open>OSError\<close> with
  \<open>ENAMETOOLONG\<close>, which \<open>exists()\<close> lets through, not a not-found condition.
\<close>

theorem download_missing_customer_counterexample:
  "stat demo_root (''output'' # parse_parts ''notes.txt'') = Inr (File ''N'') \<and>
   download_generated_code demo_root ''notes.txt'' = (Inr [], demo_root) \<and>
   \<not> path_exists demo_root (''output'' # parse_parts (replicate 256 (CHR ''a''))) \<and>
   download_generated_code demo_root (replicate 256 (CHR ''a'')) =
     (Inl (OSError ENAMETOOLONG), demo_root)"
proof -
  let ?long = "replicate 256 (CHR ''a'')"
  have a: "stat demo_root (''output'' # parse_parts ''notes.txt'') = Inr (File ''N'')"
    by (simp add: stat_eval demo_root_def parse_parts_def str_split_def)
  have b: "download_generated_code demo_root ''notes.txt'' = (Inr [], demo_root)"
    by (simp add: download_generated_code_def py_exists_def rglob_path_def a rglob_def)
  have "?long \<noteq> ''.''"
  proof
    assume "?long = ''.''"
    then have "length ?long = length ''.''" by (rule arg_cong)
    then show False by simp
  qed
  then have p: "parse_parts ?long = [?long]"
    by (simp add: parse_parts_def str_split_def split_from_slash_free)
  have "?long \<noteq> ''..''"
  proof
    assume "?long = ''..''"
    then have "length ?long = length ''..''" by (rule arg_cong)
    then show False by simp
  qed
  note q = this
  have n: "\<not> has_nul [''output'', ?long]" by (simp add: has_nul_def)
  have u: "utf8_length ?long = 256" by (simp add: utf8_length_def)
  have l: "utf8_length (path_str (''/'', [''output'', ?long])) = 264"
    by (simp add: utf8_length_def path_str_def)
  have c: "stat demo_root (''output'' # parse_parts ?long) = Inl (OSError ENAMETOOLONG)"
    using q by (simp add: stat_def p n l u demo_root_def utf8_length_def [of "''output''"])
  then have d: "\<not> path_exists demo_root (''output'' # parse_parts ?long)"
    by (simp add: path_exists_def)
  have e: "download_generated_code demo_root ?long = (Inl (OSError ENAMETOOLONG), demo_root)"
    by (simp add: download_generated_code_def py_exists_def c)
  from a b d e show ?thesis by simp
qed

text \<open>
  Claim C2, amended. Let nothing be at the customer's path under \<open>/output\<close>. When the
  lookup fails because a component is missing or is not a directory, or because the
  name holds a zero character, \<open>download_generated_code\<close> raises \<open>FileNotFoundError\<close>;
  when it fails with \<open>ENAMETOOLONG\<close>, which takes a path of \<open>PATH_MAX\<close> bytes or a
  component of more than \<open>NAME_MAX\<close>, that error is raised. In both cases no archive
  is built. Where a regular file is at the path the archive is empty. For every
  customer name the file system after the call is the file system before it, so no
  directory is created.
\<close>

theorem download_missing_customer:
  "(\<not> path_exists root (''output'' # parse_parts customer_name) \<and>
    stat root (''output'' # parse_parts customer_name) \<noteq> Inl (OSError ENAMETOOLONG) \<longrightarrow>
      download_generated_code root customer_name = (Inl FileNotFoundError, root)) \<and>
   (stat root (''output'' # parse_parts customer_name) = Inl (OSError ENAMETOOLONG) \<longrightarrow>
      download_generated_code root customer_name = (Inl (OSError ENAMETOOLONG), root) \<and>
      (PATH_MAX \<le> utf8_length (path_str (''/'', ''output'' # parse_parts customer_name)) \<or>
       list_ex (\<lambda>c. NAME_MAX < utf8_length c) (parse_parts customer_name))) \<and>
   (\<forall>c. stat root (''output'' # parse_parts customer_name) = Inr (File c) \<longrightarrow>
      download_generated_code root customer_name = (Inr [], root)) \<and>
   snd (download_generated_code root customer_name) = root"
proof (intro conjI impI allI)
  let ?p = "''output'' # parse_parts customer_name"
  assume "\<not> path_exists root ?p \<and> stat root ?p \<noteq> Inl (OSError ENAMETOOLONG)"
  then obtain e where e: "stat root ?p = Inl e" "e \<noteq> OSError ENAMETOOLONG"
    by (auto simp: path_exists_def split: sum.splits)
  from stat_errors[OF e(1)] e(2) have "py_exists root ?p = Inr False"
    by (auto simp: py_exists_def e(1))
  then show "download_generated_code root customer_name = (Inl FileNotFoundError, root)"
    by (simp add: download_generated_code_def)
next
  let ?p = "''output'' # parse_parts customer_name"
  assume a: "stat root ?p = Inl (OSError ENAMETOOLONG)"
  then show "download_generated_code root customer_name = (Inl (OSError ENAMETOOLONG), root)"
    by (simp add: download_generated_code_def py_exists_def)
  from stat_too_long[OF a]
  show "PATH_MAX \<le> utf8_length (path_str (''/'', ?p)) \<or>
       list_ex (\<lambda>c. NAME_MAX < utf8_length c) (parse_parts customer_name)"
    by (auto simp: list_ex_iff utf8_length_def)
next
  fix c
  assume "stat root (''output'' # parse_parts customer_name) = Inr (File c)"
  then show "download_generated_code root customer_name = (Inr [], root)"
    by (simp add: download_generated_code_def py_exists_def rglob_path_def rglob_def)
next
  show "snd (download_generated_code root customer_name) = root"
    by (simp add: download_generated_code_def Let_def split: sum.splits bool.splits)
qed

theorem download_missing_customer_witness:
  "\<not> path_exists demo_root (''output'' # parse_parts ''initech'') \<and>
   stat demo_root (''output'' # parse_parts ''initech'') \<noteq> Inl (OSError ENAMETOOLONG) \<and>
   download_generated_code demo_root ''initech'' = (Inl FileNotFoundError, demo_root) \<and>
   stat demo_root (''output'' # parse_parts ''notes.txt'') = Inr (File ''N'') \<and>
   download_generated_code demo_root ''notes.txt'' = (Inr [], demo_root) \<and>
   snd (download_generated_code demo_root ''acme'') = demo_root"
proof -
  have s: "stat demo_root (''output'' # parse_parts ''initech'') = Inl FileNotFoundError"
    by (simp add: stat_eval demo_root_def parse_parts_def str_split_def)
  then have a: "\<not> path_exists demo_root (''output'' # parse_parts ''initech'')"
    "stat demo_root (''output'' # parse_parts ''initech'') \<noteq> Inl (OSError ENAMETOOLONG)"
    by (simp_all add: path_exists_def)
  have b: "stat demo_root (''output'' # parse_parts ''notes.txt'') = Inr (File ''N'')"
    by (simp add: stat_eval demo_root_def parse_parts_def str_split_def)
  show ?thesis
    using download_missing_customer[of demo_root "''initech''"]
      download_missing_customer[of demo_root "''notes.txt''"]
      download_missing_customer[of demo_root "''acme''"] a b by simp
qed



section \<open>The listing\<close>

text \<open>
  Claim C3, as it fails on the code. \<open>file_count\<close> is the length of
  \<open>customer_dir.rglob("*")\<close>, which holds the directories below the customer directory
  as well as the regular files: in the store of the scenario \<open>acme\<close> has five regular
  files and is reported with a \<open>file_count\<close> of seven.
\<close>

theorem file_count_counts_directories:
  "list_customers demo_root =
     Inr [\<lparr>name = ''globex'', modified = 2, file_count = 2\<rparr>,
          \<lparr>name = ''acme'', modified = 1, file_count = 7\<rparr>] \<and>
   regular_files globex_dir = 2 \<and> regular_files acme_dir = 5"
  by (simp add: list_customers_def stat_eval demo_root_def acme_dir_def globex_dir_def rglob_def
      sorted_reverse_def)




section \<open>Generation\<close>






section \<open>The facade\<close>

text \<open>
  Claim C8. When one of the keys \<open>customer_name\<close>, \<open>sap_version\<close>, \<open>config_files\<close>,
  \<open>quote_fields\<close> is missing from the body, \<open>api_generate\<close> raises \<open>KeyError\<close> for the
  first that is missing and \<open>generate_endpoint\<close> is not run. When the four are there,
  \<open>api_generate\<close> is \<open>generate_endpoint\<close> on them, with \<open>None\<close> for each of
  \<open>custom_fields\<close>, \<open>special_logic\<close> and \<open>resume_session_id\<close> that is missing and
  \<open>False\<close> for a missing \<open>fork_session\<close>; what it returns or raises is what
  \<open>generate_endpoint\<close> returns or raises.
\<close>

theorem api_generate_facade:
  "(item_customer_name it = None \<longrightarrow>
      api_generate jd cli w it = (Inl (KeyError ''customer_name''), w)) \<and>
   (item_customer_name it \<noteq> None \<and> item_sap_version it = None \<longrightarrow>
      api_generate jd cli w it = (Inl (KeyError ''sap_version''), w)) \<and>
   (item_customer_name it \<noteq> None \<and> item_sap_version it \<noteq> None \<and>
    item_config_files it = None \<longrightarrow>
      api_generate jd cli w it = (Inl (KeyError ''config_files''), w)) \<and>
   (item_customer_name it \<noteq> None \<and> item_sap_version it \<noteq> None \<and>
    item_config_files it \<noteq> None \<and> item_quote_fields it = None \<longrightarrow>
      api_generate jd cli w it = (Inl (KeyError ''quote_fields''), w)) \<and>
   (\<forall>cn sv cfg qf.
      item_customer_name it = Some cn \<and> item_sap_version it = Some sv \<and>
      item_config_files it = Some cfg \<and> item_quote_fields it = Some qf \<longrightarrow>
      api_generate jd cli w it =
        generate_endpoint jd cli w cn sv cfg qf (item_custom_fields it) (item_special_logic it)
          (item_resume_session_id it)
          (case item_fork_session it of None \<Rightarrow> False | Some b \<Rightarrow> b))"
  by (auto simp: api_generate_def getitem_def)

theorem api_generate_facade_witness:
  "api_generate (\<lambda>d. ''{}'') (ls_cli [''tmp'', ''tmpa'', ''config''] 0) demo_world
     \<lparr>item_customer_name = Some ''globex'', item_sap_version = None,
      item_config_files = Some [(''a.txt'', ''A'')], item_quote_fields = None,
      item_custom_fields = None, item_special_logic = None, item_resume_session_id = None,
      item_fork_session = None\<rparr> = (Inl (KeyError ''sap_version''), demo_world) \<and>
   api_generate (\<lambda>d. ''{}'') (ls_cli [''tmp'', ''tmpa'', ''config''] 0) demo_world
     \<lparr>item_customer_name = Some ''globex'', item_sap_version = Some ''ECC6'',
      item_config_files = Some [(''a.txt'', ''A'')], item_quote_fields = Some [''customer_id''],
      item_custom_fields = None, item_special_logic = None,
      item_resume_session_id = Some ''s1'', item_fork_session = None\<rparr> =
   generate_endpoint (\<lambda>d. ''{}'') (ls_cli [''tmp'', ''tmpa'', ''config''] 0) demo_world
     ''globex'' ''ECC6'' [(''a.txt'', ''A'')] [''customer_id''] None None (Some ''s1'') False"
  using api_generate_facade[of "\<lparr>item_customer_name = Some ''globex'', item_sap_version = None,
      item_config_files = Some [(''a.txt'', ''A'')], item_quote_fields = None,
      item_custom_fields = None, item_special_logic = None, item_resume_session_id = None,
      item_fork_session = None\<rparr>" "\<lambda>d. ''{}''" "ls_cli [''tmp'', ''tmpa'', ''config''] 0" demo_world]
    api_generate_facade[of "\<lparr>item_customer_name = Some ''globex'', item_sap_version = Some ''ECC6'',
      item_config_files = Some [(''a.txt'', ''A'')], item_quote_fields = Some [''customer_id''],
      item_custom_fields = None, item_special_logic = None,
      item_resume_session_id = Some ''s1'', item_fork_session = None\<rparr>"
      "\<lambda>d. ''{}''" "ls_cli [''tmp'', ''tmpa'', ''config''] 0" demo_world]
  by simp


end
